theory Spec2Isabelle
  imports Main "HOL-Library.Word"
begin

section \<open>The POSTECH GenAI OpenAI bridge (src/main.py)\<close>

text \<open>
  A shallow embedding of \<^verbatim>\<open>src/main.py\<close>. Python strings are \<open>string\<close>; values that
  come out of \<^verbatim>\<open>json.loads\<close> or go into \<^verbatim>\<open>json.dumps\<close> are values of the type
  \<open>json\<close>; every \<^verbatim>\<open>raise\<close> is the \<open>Inl\<close> branch of a sum.
\<close>

subsection \<open>Python values\<close>

text \<open>
  What \<^verbatim>\<open>json.loads\<close> returns: \<^verbatim>\<open>None\<close>, a bool, an int, a float, a str, a list or a
  dict with str keys. A float is kept as the 64 bits of its IEEE 754 double, a dict as the
  list of its items (keys distinct, in insertion order).
\<close>

datatype json =
    JNull
  | JBool bool
  | JNum int
  | JFloat "64 word"
  | JStr string
  | JArr "json list"
  | JObj "(string \<times> json) list"

text \<open>\<^verbatim>\<open>d.get(key)\<close> and \<^verbatim>\<open>d.get(key, default)\<close> on a dict.\<close>

definition dict_get :: "(string \<times> json) list \<Rightarrow> string \<Rightarrow> json \<Rightarrow> json" where
  "dict_get d k dflt = (case map_of d k of None \<Rightarrow> dflt | Some v \<Rightarrow> v)"

text \<open>
  Python's truth value of an object (\<^verbatim>\<open>if x:\<close>). A float is false when it is
  \<open>0.0\<close> or \<open>-0.0\<close>: all bits below the sign bit are zero.
\<close>

fun truthy :: "json \<Rightarrow> bool" where
  "truthy JNull = False"
| "truthy (JBool b) = b"
| "truthy (JNum n) = (n \<noteq> 0)"
| "truthy (JFloat b) = (take_bit 63 b \<noteq> 0)"
| "truthy (JStr s) = (s \<noteq> [])"
| "truthy (JArr xs) = (xs \<noteq> [])"
| "truthy (JObj d) = (d \<noteq> [])"

text \<open>The str that a JSON string holds.\<close>

fun text_of :: "json \<Rightarrow> string" where
  "text_of (JStr s) = s"
| "text_of x = []"

text \<open>
  \<^verbatim>\<open>str.lower()\<close>, on the ASCII letters. The code compares its result with \<^verbatim>\<open>"true"\<close>
  only (line 214), and no character outside ASCII has one of the letters of that word as
  its lower case. \<^verbatim>\<open>str.upper()\<close> follows Unicode (it maps letters outside ASCII too, and
  the German sharp s to \<^verbatim>\<open>SS\<close>) and is a value of the environment below; \<open>ascii_upper\<close>
  is what it does on ASCII text.
\<close>

definition ascii_lowercase :: string where
  "ascii_lowercase = ''abcdefghijklmnopqrstuvwxyz''"

definition ascii_uppercase :: string where
  "ascii_uppercase = ''ABCDEFGHIJKLMNOPQRSTUVWXYZ''"

definition upper_char :: "char \<Rightarrow> char" where
  "upper_char c =
     (case map_of (zip ascii_lowercase ascii_uppercase) c of None \<Rightarrow> c | Some C \<Rightarrow> C)"

definition lower_char :: "char \<Rightarrow> char" where
  "lower_char c =
     (case map_of (zip ascii_uppercase ascii_lowercase) c of None \<Rightarrow> c | Some C \<Rightarrow> C)"

definition ascii_upper :: "string \<Rightarrow> string" where
  "ascii_upper s = map upper_char s"

definition lower :: "string \<Rightarrow> string" where
  "lower s = map lower_char s"

text \<open>\<^verbatim>\<open>sep.join(lines)\<close>.\<close>

fun join :: "string \<Rightarrow> string list \<Rightarrow> string" where
  "join sep [] = []"
| "join sep [l] = l"
| "join sep (l # ls) = l @ sep @ join sep ls"

text \<open>\<^verbatim>\<open>sub in s\<close> on strings: \<open>sub\<close> occurs in \<open>s\<close> as a contiguous run.\<close>

fun contains :: "string \<Rightarrow> string \<Rightarrow> bool" where
  "contains [] sub = (sub = [])"
| "contains (c # s) sub = (take (length sub) (c # s) = sub \<or> contains s sub)"

subsection \<open>Pydantic models (lines 35-49)\<close>

record Message =
  role :: string
  content :: string

text \<open>\<open>FileInfo\<close>: the fields \<^verbatim>\<open>id\<close>, \<^verbatim>\<open>name\<close> and \<^verbatim>\<open>url\<close>.\<close>

record FileInfo =
  info_id :: string
  info_name :: string
  info_url :: string

text \<open>\<^verbatim>\<open>f.model_dump()\<close> of a \<open>FileInfo\<close>.\<close>

definition model_dump :: "FileInfo \<Rightarrow> json" where
  "model_dump f =
     JObj [(''id'', JStr (info_id f)), (''name'', JStr (info_name f)), (''url'', JStr (info_url f))]"

subsection \<open>Model routing (lines 26-31)\<close>

definition MODEL_ENDPOINTS :: "(string \<times> string) list" where
  "MODEL_ENDPOINTS =
     [(''postech-gpt'', ''a1/gpt''),
      (''postech-gemini'', ''a2/gemini''),
      (''postech-claude'', ''a3/claude'')]"

definition DEFAULT_MODEL :: string where
  "DEFAULT_MODEL = ''postech-gpt''"

subsection \<open>Exceptions\<close>

text \<open>
  The exceptions that the code can meet. A \<open>TypeError\<close> records what raised it: iterating
  a value that is not iterable, \<^verbatim>\<open>**m\<close> on a value that is not a mapping, hashing a list
  or a dict. \<open>ValidationError\<close> is pydantic's (a \<^verbatim>\<open>ValueError\<close>). The last three are the
  subclasses of \<^verbatim>\<open>requests.RequestException\<close>: a failure of the transport (with its
  message), the \<^verbatim>\<open>HTTPError\<close> of \<^verbatim>\<open>raise_for_status\<close> (with the status code), and the
  decode error of \<^verbatim>\<open>response.json()\<close> (a \<^verbatim>\<open>RequestException\<close> since requests 2.27).
\<close>

datatype type_error = NotIterable json | NotAMapping json | Unhashable json

datatype exn =
    JSONDecodeError string
  | TypeError type_error
  | ValidationError
  | AttributeError
  | KeyError
  | TransportError string
  | HTTPError nat
  | ResponseJSONDecodeError string

fun is_RequestException :: "exn \<Rightarrow> bool" where
  "is_RequestException (TransportError m) = True"
| "is_RequestException (HTTPError st) = True"
| "is_RequestException (ResponseJSONDecodeError m) = True"
| "is_RequestException ex = False"

text \<open>
  The \<^verbatim>\<open>detail\<close> of an \<^verbatim>\<open>HTTPException\<close>: a literal text, or one of the three f-strings
  of the source, kept as the values they interpolate:
  \<^verbatim>\<open>f"Invalid messages format: {e}"\<close>,
  \<^verbatim>\<open>f"Invalid model: {model}. Available: {list(MODEL_ENDPOINTS.keys())}"\<close>,
  \<^verbatim>\<open>f"POSTECH API error: {str(e)}"\<close>.
\<close>

datatype detail =
    Text string
  | InvalidMessagesFormat exn
  | InvalidModel json "string list"
  | PostechAPIError exn

text \<open>
  How a handler fails: with an \<^verbatim>\<open>HTTPException\<close> (status code and detail), or with
  an exception that nothing catches, which the server answers with status 500.
\<close>

datatype failure = HTTPException nat detail | Unhandled exn

subsection \<open>UUIDs\<close>

text \<open>
  A \<^verbatim>\<open>uuid.UUID\<close> is a 128-bit integer. \<^verbatim>\<open>UUID.hex\<close> is its 32 lowercase hexadecimal
  digits, and \<^verbatim>\<open>str(UUID)\<close> groups them 8-4-4-4-12 with hyphens.
\<close>

type_synonym uuid = "128 word"

definition hex_digit :: "nat \<Rightarrow> char" where
  "hex_digit n = ''0123456789abcdef'' ! n"

definition uuid_hex :: "uuid \<Rightarrow> string" where
  "uuid_hex u = map (\<lambda>i. hex_digit (nat (uint u div 16 ^ (31 - i) mod 16))) [0..<32]"

definition uuid_str :: "uuid \<Rightarrow> string" where
  "uuid_str u =
     (let h = uuid_hex u
      in take 8 h @ ''-'' @ take 4 (drop 8 h) @ ''-'' @ take 4 (drop 12 h) @ ''-''
         @ take 4 (drop 16 h) @ ''-'' @ drop 20 h)"

subsection \<open>The environment and the state\<close>

type_synonym bytes = "8 word list"

text \<open>An \<^verbatim>\<open>UploadFile\<close>: its \<^verbatim>\<open>filename\<close> and what \<^verbatim>\<open>await file.read()\<close> returns.\<close>

record UploadFile =
  filename :: "string option"
  file_bytes :: bytes

text \<open>One call of \<^verbatim>\<open>requests.post(url, json=payload, headers=headers, timeout=120)\<close>.\<close>

record post_call =
  post_url :: string
  post_json :: json
  post_headers :: "(string \<times> string) list"
  post_timeout :: nat

text \<open>
  What the call does: it raises a \<^verbatim>\<open>RequestException\<close> (connection failure, timeout),
  or returns a response with a status code and a body.
\<close>

datatype post_result = Raises string | Response nat string

text \<open>
  Everything the module reads from outside: the three configuration values (lines 19-21),
  the library functions \<^verbatim>\<open>json.loads\<close> (\<open>Inl\<close> is the message of its
  \<^verbatim>\<open>JSONDecodeError\<close>), \<^verbatim>\<open>json.dumps\<close> and \<^verbatim>\<open>str.upper\<close>, the \<open>n\<close>-th value of
  \<^verbatim>\<open>uuid.uuid4()\<close> and of \<^verbatim>\<open>int(time.time())\<close>, and the backend behind
  \<^verbatim>\<open>requests.post\<close>. The last field is what the server does with a returned dict that
  holds no NaN and no infinite float: it writes it as JSON and encodes the text as UTF-8,
  which fails (\<open>None\<close>) when a str in it cannot be encoded.
\<close>

record env =
  POSTECH_BASE_URL :: string
  POSTECH_API_KEY :: string
  PROXY_HOST :: string
  json_loads :: "string \<Rightarrow> string + json"
  json_dumps :: "json \<Rightarrow> string"
  str_upper :: "string \<Rightarrow> string"
  uuid4 :: "nat \<Rightarrow> uuid"
  unix_time :: "nat \<Rightarrow> int"
  requests_post :: "post_call \<Rightarrow> post_result"
  encode_utf8 :: "json \<Rightarrow> string option"

text \<open>A value of the dict \<^verbatim>\<open>stored_files\<close>: the keys \<^verbatim>\<open>id\<close>, \<^verbatim>\<open>name\<close> and \<^verbatim>\<open>path\<close>.\<close>

record stored_file =
  stored_id :: string
  stored_name :: "string option"
  stored_path :: string

text \<open>
  The state: the registry \<^verbatim>\<open>stored_files\<close> (line 53), the files on disk by path, the
  calls of \<^verbatim>\<open>requests.post\<close> made so far, and how many UUIDs and clock readings have
  been drawn.
\<close>

record world =
  stored_files :: "string \<rightharpoonup> stored_file"
  disk :: "string \<rightharpoonup> bytes"
  posts :: "post_call list"
  uuid_count :: nat
  time_count :: nat

definition new_uuid :: "env \<Rightarrow> world \<Rightarrow> uuid \<times> world" where
  "new_uuid e w = (uuid4 e (uuid_count w), w\<lparr>uuid_count := Suc (uuid_count w)\<rparr>)"

definition now :: "env \<Rightarrow> world \<Rightarrow> int \<times> world" where
  "now e w = (unix_time e (time_count w), w\<lparr>time_count := Suc (time_count w)\<rparr>)"

definition TMP_DIR :: string where
  "TMP_DIR = ''tmp''"

text \<open>A str or \<^verbatim>\<open>None\<close>, as a value in a returned dict.\<close>

definition opt_str :: "string option \<Rightarrow> json" where
  "opt_str s = (case s of None \<Rightarrow> JNull | Some t \<Rightarrow> JStr t)"

subsection \<open>Responses\<close>

text \<open>
  A returned dict (sent as JSON), a \<^verbatim>\<open>FileResponse(path, filename)\<close>, or a
  \<^verbatim>\<open>StreamingResponse\<close> with its frames, media type and headers.
\<close>

datatype response =
    JSONResponse json
  | FileResponse string "string option"
  | StreamingResponse "string list" string "(string \<times> string) list"

text \<open>The body that the server sends for a response: a \<open>FileResponse\<close> sends the file at its path.\<close>

fun sent_file :: "world \<Rightarrow> response \<Rightarrow> (string option \<times> bytes) option" where
  "sent_file w (FileResponse path fname) =
     (case disk w path of None \<Rightarrow> None | Some b \<Rightarrow> Some (fname, b))"
| "sent_file w r = None"

subsection \<open>The file registry (lines 65-96)\<close>

definition upload_file :: "env \<Rightarrow> world \<Rightarrow> UploadFile \<Rightarrow> response \<times> world" where
  "upload_file e w file =
     (let (u, w1) = new_uuid e w;
          file_id = uuid_str u;
          file_path = TMP_DIR @ ''/'' @ file_id;
          w2 = w1\<lparr>disk := (disk w1)(file_path \<mapsto> file_bytes file)\<rparr>;
          w3 = w2\<lparr>stored_files := (stored_files w2)(file_id \<mapsto>
                 \<lparr>stored_id = file_id, stored_name = filename file, stored_path = file_path\<rparr>)\<rparr>
      in (JSONResponse (JObj [(''id'', JStr file_id),
                              (''name'', opt_str (filename file)),
                              (''url'', JStr (PROXY_HOST e @ ''/files/'' @ file_id))]),
          w3))"

definition get_file :: "world \<Rightarrow> string \<Rightarrow> (failure + response) \<times> world" where
  "get_file w file_id =
     (case stored_files w file_id of
        None \<Rightarrow> (Inl (HTTPException 404 (Text ''File not found'')), w)
      | Some file_info \<Rightarrow> (Inr (FileResponse (stored_path file_info) (stored_name file_info)), w))"

subsection \<open>Message transcoding (lines 99-104)\<close>

text \<open>
  The \<^verbatim>\<open>for\<close> loop of \<^verbatim>\<open>convert_messages_to_prompt\<close>, appending one line per message;
  \<open>up\<close> is \<^verbatim>\<open>str.upper\<close>.
\<close>

fun prompt_lines :: "(string \<Rightarrow> string) \<Rightarrow> string list \<Rightarrow> Message list \<Rightarrow> string list" where
  "prompt_lines up lines [] = lines"
| "prompt_lines up lines (msg # msgs) =
     prompt_lines up (lines @ [up (role msg) @ '': '' @ content msg]) msgs"

definition convert_messages_to_prompt :: "(string \<Rightarrow> string) \<Rightarrow> Message list \<Rightarrow> string" where
  "convert_messages_to_prompt up messages = join [CHR 0x0A] (prompt_lines up [] messages)"

text \<open>
  The transcoding in the words of the specification: one line per message, in order,
  separated by single newlines, with no newline before the first line or after the last.
\<close>

fun toPrompt :: "(string \<Rightarrow> string) \<Rightarrow> Message list \<Rightarrow> string" where
  "toPrompt up [] = []"
| "toPrompt up [m] = up (role m) @ '': '' @ content m"
| "toPrompt up (m # ms) = up (role m) @ '': '' @ content m @ [CHR 0x0A] @ toPrompt up ms"

subsection \<open>The backend client (lines 107-125)\<close>

definition payload_of :: "string \<Rightarrow> FileInfo list \<Rightarrow> json" where
  "payload_of prompt files =
     JObj [(''message'', JStr prompt),
           (''stream'', JBool False),
           (''files'', JArr (if files \<noteq> [] then map model_dump files else []))]"

text \<open>Lines 108-121: the arguments of \<^verbatim>\<open>requests.post\<close>.\<close>

definition post_of :: "env \<Rightarrow> string \<Rightarrow> string \<Rightarrow> FileInfo list \<Rightarrow> post_call" where
  "post_of e endpoint prompt files =
     \<lparr>post_url = POSTECH_BASE_URL e @ ''/'' @ endpoint,
      post_json = payload_of prompt files,
      post_headers = [(''Content-Type'', ''application/json''),
                      (''X-Api-Key'', POSTECH_API_KEY e)],
      post_timeout = 120\<rparr>"

definition call_postech_api ::
  "env \<Rightarrow> world \<Rightarrow> string \<Rightarrow> string \<Rightarrow> FileInfo list \<Rightarrow> (exn + json) \<times> world" where
  "call_postech_api e w endpoint prompt files =
     (let call = post_of e endpoint prompt files;
          w1 = w\<lparr>posts := posts w @ [call]\<rparr>
      in case requests_post e call of
           Raises msg \<Rightarrow> (Inl (TransportError msg), w1)
         | Response status body \<Rightarrow>
             if 400 \<le> status \<and> status < 600 then (Inl (HTTPError status), w1)
             else (case json_loads e body of
                     Inl msg \<Rightarrow> (Inl (ResponseJSONDecodeError msg), w1)
                   | Inr (JObj data) \<Rightarrow> (Inr (dict_get data ''replies'' (JStr [])), w1)
                   | Inr other \<Rightarrow> (Inl AttributeError, w1)))"

subsection \<open>Saving an attached file (lines 128-147)\<close>

definition save_uploaded_file :: "env \<Rightarrow> world \<Rightarrow> UploadFile \<Rightarrow> FileInfo \<times> world" where
  "save_uploaded_file e w file =
     (let (u, w1) = new_uuid e w;
          file_id = uuid_str u;
          file_path = TMP_DIR @ ''/'' @ file_id;
          w2 = w1\<lparr>disk := (disk w1)(file_path \<mapsto> file_bytes file)\<rparr>;
          w3 = w2\<lparr>stored_files := (stored_files w2)(file_id \<mapsto>
                 \<lparr>stored_id = file_id, stored_name = filename file, stored_path = file_path\<rparr>)\<rparr>
      in (\<lparr>info_id = file_id,
           info_name = (case filename file of
                          None \<Rightarrow> ''file''
                        | Some n \<Rightarrow> if n = [] then ''file'' else n),
           info_url = PROXY_HOST e @ ''/files/'' @ file_id\<rparr>,
          w3))"

subsection \<open>The synthetic stream (lines 150-190)\<close>

definition chunk :: "json \<Rightarrow> string \<Rightarrow> string \<Rightarrow> int \<Rightarrow> json" where
  "chunk reply model completion_id created =
     JObj [(''id'', JStr completion_id),
           (''object'', JStr ''chat.completion.chunk''),
           (''created'', JNum created),
           (''model'', JStr model),
           (''choices'',
              JArr [JObj [(''index'', JNum 0),
                          (''delta'', JObj [(''role'', JStr ''assistant''),
                                            (''content'', reply)]),
                          (''finish_reason'', JNull)]])]"

definition finish_chunk :: "string \<Rightarrow> string \<Rightarrow> int \<Rightarrow> json" where
  "finish_chunk model completion_id created =
     JObj [(''id'', JStr completion_id),
           (''object'', JStr ''chat.completion.chunk''),
           (''created'', JNum created),
           (''model'', JStr model),
           (''choices'',
              JArr [JObj [(''index'', JNum 0),
                          (''delta'', JObj []),
                          (''finish_reason'', JStr ''stop'')]])]"

text \<open>
  The generator, run to its end: it reads the clock once, then yields the three frames.
  A frame with a chunk is \<^verbatim>\<open>f"data: {json.dumps(chunk)}\n\n"\<close>.
\<close>

definition generate_stream_response ::
  "env \<Rightarrow> world \<Rightarrow> json \<Rightarrow> string \<Rightarrow> string \<Rightarrow> string list \<times> world" where
  "generate_stream_response e w reply model completion_id =
     (let (created, w1) = now e w
      in ([''data: '' @ json_dumps e (chunk reply model completion_id created)
             @ [CHR 0x0A, CHR 0x0A],
           ''data: '' @ json_dumps e (finish_chunk model completion_id created)
             @ [CHR 0x0A, CHR 0x0A],
           ''data: [DONE]'' @ [CHR 0x0A, CHR 0x0A]],
          w1))"

subsection \<open>Chat completions (lines 193-273)\<close>

text \<open>
  The arguments of the handler: the \<^verbatim>\<open>content-type\<close> header and the body of the request,
  and the form fields \<^verbatim>\<open>model\<close>, \<^verbatim>\<open>messages\<close>, \<^verbatim>\<open>stream\<close> and \<^verbatim>\<open>file\<close>,
  each \<^verbatim>\<open>None\<close> when the form does not have it.
\<close>

record chat_request =
  content_type_header :: "string option"
  request_body :: string
  form_model :: "string option"
  form_messages :: "string option"
  form_stream :: "string option"
  form_file :: "UploadFile option"

text \<open>\<^verbatim>\<open>for m in x\<close>: the elements of a list, the keys of a dict, the characters of a str.\<close>

fun py_iter :: "json \<Rightarrow> exn + json list" where
  "py_iter (JArr xs) = Inr xs"
| "py_iter (JObj d) = Inr (map (\<lambda>kv. JStr (fst kv)) d)"
| "py_iter (JStr s) = Inr (map (\<lambda>c. JStr [c]) s)"
| "py_iter x = Inl (TypeError (NotIterable x))"

text \<open>
  \<^verbatim>\<open>Message(**m)\<close>: \<^verbatim>\<open>**m\<close> needs a mapping; pydantic then requires the fields
  \<^verbatim>\<open>role\<close> and \<^verbatim>\<open>content\<close>, each a str, and ignores any other key.
\<close>

fun Message_init :: "json \<Rightarrow> exn + Message" where
  "Message_init (JObj d) =
     (case map_of d ''role'' of
        Some (JStr r) \<Rightarrow>
          (case map_of d ''content'' of
             Some (JStr c) \<Rightarrow> Inr \<lparr>role = r, content = c\<rparr>
           | _ \<Rightarrow> Inl ValidationError)
      | _ \<Rightarrow> Inl ValidationError)"
| "Message_init m = Inl (TypeError (NotAMapping m))"

text \<open>The comprehension \<^verbatim>\<open>[Message(**m) for m in ms]\<close>; the first failure ends it.\<close>

fun Messages_init :: "json list \<Rightarrow> exn + Message list" where
  "Messages_init [] = Inr []"
| "Messages_init (m # ms) =
     (case Message_init m of
        Inl ex \<Rightarrow> Inl ex
      | Inr msg \<Rightarrow> (case Messages_init ms of Inl ex \<Rightarrow> Inl ex | Inr msgs \<Rightarrow> Inr (msg # msgs)))"

definition parse_messages :: "json \<Rightarrow> exn + Message list" where
  "parse_messages x = (case py_iter x of Inl ex \<Rightarrow> Inl ex | Inr ms \<Rightarrow> Messages_init ms)"

text \<open>\<^verbatim>\<open>stream and stream.lower() == "true"\<close> (line 214).\<close>

definition stream_flag :: "string option \<Rightarrow> json" where
  "stream_flag stream =
     (case stream of
        None \<Rightarrow> JNull
      | Some s \<Rightarrow> if s = [] then JStr [] else JBool (lower s = ''true''))"

text \<open>\<^verbatim>\<open>except (json.JSONDecodeError, TypeError)\<close> (line 211).\<close>

fun caught_at_211 :: "exn \<Rightarrow> bool" where
  "caught_at_211 (JSONDecodeError m) = True"
| "caught_at_211 (TypeError t) = True"
| "caught_at_211 ex = False"

text \<open>
  Lines 205-214, the form branch: the model, the messages and the stream flag of the
  request, or the failure.
\<close>

definition parse_form :: "env \<Rightarrow> chat_request \<Rightarrow> failure + (json \<times> Message list \<times> json)" where
  "parse_form e rq =
     (case form_messages rq of
        None \<Rightarrow> Inl (HTTPException 400 (Text ''messages field is required''))
      | Some messages \<Rightarrow>
          if messages = [] then Inl (HTTPException 400 (Text ''messages field is required''))
          else
            (case (case json_loads e messages of
                     Inl msg \<Rightarrow> Inl (JSONDecodeError msg)
                   | Inr x \<Rightarrow> parse_messages x) of
               Inl ex \<Rightarrow>
                 if caught_at_211 ex then Inl (HTTPException 400 (InvalidMessagesFormat ex))
                 else Inl (Unhandled ex)
             | Inr parsed_messages \<Rightarrow>
                 Inr (JStr (case form_model rq of
                              None \<Rightarrow> DEFAULT_MODEL
                            | Some m \<Rightarrow> if m = [] then DEFAULT_MODEL else m),
                      parsed_messages,
                      stream_flag (form_stream rq))))"

text \<open>Lines 216-220, the JSON branch.\<close>

definition parse_body :: "env \<Rightarrow> chat_request \<Rightarrow> failure + (json \<times> Message list \<times> json)" where
  "parse_body e rq =
     (case json_loads e (request_body rq) of
        Inl msg \<Rightarrow> Inl (Unhandled (JSONDecodeError msg))
      | Inr (JObj body) \<Rightarrow>
          (case parse_messages (dict_get body ''messages'' (JArr [])) of
             Inl ex \<Rightarrow> Inl (Unhandled ex)
           | Inr parsed_messages \<Rightarrow>
               Inr (dict_get body ''model'' (JStr DEFAULT_MODEL),
                    parsed_messages,
                    dict_get body ''stream'' (JBool False)))
      | Inr other \<Rightarrow> Inl (Unhandled AttributeError))"

definition parse_request :: "env \<Rightarrow> chat_request \<Rightarrow> failure + (json \<times> Message list \<times> json)" where
  "parse_request e rq =
     (let content_type = (case content_type_header rq of None \<Rightarrow> [] | Some c \<Rightarrow> c)
      in if contains content_type ''multipart/form-data'' then parse_form e rq
         else parse_body e rq)"

text \<open>
  Lines 223-227, \<^verbatim>\<open>model not in MODEL_ENDPOINTS\<close>. The lookup hashes the model, which
  raises a \<open>TypeError\<close> for a list or a dict; a value that is not a str is no key of the
  table.
\<close>

fun hashable :: "json \<Rightarrow> bool" where
  "hashable (JArr xs) = False"
| "hashable (JObj d) = False"
| "hashable x = True"

fun in_MODEL_ENDPOINTS :: "json \<Rightarrow> bool" where
  "in_MODEL_ENDPOINTS (JStr m) = (m \<in> set (map fst MODEL_ENDPOINTS))"
| "in_MODEL_ENDPOINTS x = False"

definition validate_model :: "json \<Rightarrow> failure + string" where
  "validate_model model =
     (if \<not> hashable model then Inl (Unhandled (TypeError (Unhashable model)))
      else if \<not> in_MODEL_ENDPOINTS model
      then Inl (HTTPException 400 (InvalidModel model (map fst MODEL_ENDPOINTS)))
      else Inr (text_of model))"

text \<open>Lines 230-233: the attached file, when it has a name, is saved.\<close>

definition attach_file :: "env \<Rightarrow> world \<Rightarrow> UploadFile option \<Rightarrow> FileInfo list \<times> world" where
  "attach_file e w file =
     (case file of
        None \<Rightarrow> ([], w)
      | Some f \<Rightarrow>
          (case filename f of
             None \<Rightarrow> ([], w)
           | Some n \<Rightarrow>
               if n = [] then ([], w)
               else (let (file_info, w1) = save_uploaded_file e w f in ([file_info], w1))))"

text \<open>Lines 258-273, the completion object.\<close>

definition completion :: "json \<Rightarrow> string \<Rightarrow> string \<Rightarrow> int \<Rightarrow> json" where
  "completion reply model completion_id created =
     JObj [(''id'', JStr completion_id),
           (''object'', JStr ''chat.completion''),
           (''created'', JNum created),
           (''model'', JStr model),
           (''choices'',
              JArr [JObj [(''index'', JNum 0),
                          (''message'', JObj [(''role'', JStr ''assistant''),
                                              (''content'', reply)]),
                          (''finish_reason'', JStr ''stop'')]])]"

text \<open>Lines 244-273: the completion id and the response in the requested shape.\<close>

definition respond :: "env \<Rightarrow> world \<Rightarrow> json \<Rightarrow> string \<Rightarrow> json \<Rightarrow> response \<times> world" where
  "respond e w reply model is_stream =
     (let (u, w1) = new_uuid e w;
          completion_id = ''chatcmpl-'' @ take 12 (uuid_hex u)
      in if truthy is_stream then
           (let (frames, w2) = generate_stream_response e w1 reply model completion_id
            in (StreamingResponse frames ''text/event-stream''
                  [(''Cache-Control'', ''no-cache''), (''Connection'', ''keep-alive'')],
                w2))
         else
           (let (created, w2) = now e w1
            in (JSONResponse (completion reply model completion_id created), w2)))"

definition chat_completions :: "env \<Rightarrow> world \<Rightarrow> chat_request \<Rightarrow> (failure + response) \<times> world" where
  "chat_completions e w rq =
     (case parse_request e rq of
        Inl f \<Rightarrow> (Inl f, w)
      | Inr (model_value, parsed_messages, is_stream) \<Rightarrow>
          (case validate_model model_value of
             Inl f \<Rightarrow> (Inl f, w)
           | Inr model \<Rightarrow>
               (let (files_for_api, w1) = attach_file e w (form_file rq)
                in case map_of MODEL_ENDPOINTS model of
                     None \<Rightarrow> (Inl (Unhandled KeyError), w1)
                   | Some endpoint \<Rightarrow>
                       (let prompt = convert_messages_to_prompt (str_upper e) parsed_messages;
                            (result, w2) = call_postech_api e w1 endpoint prompt files_for_api
                        in case result of
                             Inl ex \<Rightarrow>
                               if is_RequestException ex
                               then (Inl (HTTPException 502 (PostechAPIError ex)), w2)
                               else (Inl (Unhandled ex), w2)
                           | Inr reply \<Rightarrow>
                               (let (resp, w3) = respond e w2 reply model is_stream
                                in (Inr resp, w3))))))"

subsection \<open>Sending the response\<close>

text \<open>
  A returned dict is written with \<^verbatim>\<open>json.dumps(content, allow_nan=False)\<close>, which raises
  a \<open>ValueError\<close> for a float that is NaN or infinite: all eleven bits of its exponent are
  set.
\<close>

fun json_compliant :: "json \<Rightarrow> bool" where
  "json_compliant (JFloat b) = (take_bit 11 (drop_bit 52 b) \<noteq> (2047 :: 64 word))"
| "json_compliant (JArr xs) = list_all json_compliant xs"
| "json_compliant (JObj d) = list_all json_compliant (map snd d)"
| "json_compliant x = True"

text \<open>The body of a JSON response, or \<open>None\<close> when writing or encoding it raises.\<close>

definition render :: "env \<Rightarrow> json \<Rightarrow> string option" where
  "render e x = (if json_compliant x then encode_utf8 e x else None)"

text \<open>
  The status code that the client sees for what a handler returned in a state: the code of
  an \<^verbatim>\<open>HTTPException\<close>; 500 for an exception that nothing catches, for a dict that
  cannot be rendered and for a \<open>FileResponse\<close> whose file is not on disk; 200 otherwise.
\<close>

fun status_code :: "env \<Rightarrow> (failure + response) \<times> world \<Rightarrow> nat" where
  "status_code e (Inl (HTTPException st d), w) = st"
| "status_code e (Inl (Unhandled ex), w) = 500"
| "status_code e (Inr (JSONResponse x), w) =
     (case render e x of None \<Rightarrow> 500 | Some body \<Rightarrow> 200)"
| "status_code e (Inr (FileResponse path fname), w) =
     (case disk w path of None \<Rightarrow> 500 | Some b \<Rightarrow> 200)"
| "status_code e (Inr (StreamingResponse frames media_type hs), w) = 200"

subsection \<open>Reading a response, as a client does\<close>

text \<open>The value under a key of a JSON object.\<close>

fun field :: "string \<Rightarrow> json \<Rightarrow> json option" where
  "field k (JObj d) = map_of d k"
| "field k x = None"

text \<open>The \<^verbatim>\<open>id\<close> that \<^verbatim>\<open>POST /v1/files\<close> returned.\<close>

fun returned_id :: "response \<Rightarrow> string option" where
  "returned_id (JSONResponse x) = (case field ''id'' x of Some (JStr i) \<Rightarrow> Some i | _ \<Rightarrow> None)"
| "returned_id r = None"

text \<open>The \<^verbatim>\<open>choices\<close> of a completion or of a chunk.\<close>

definition choices :: "json \<Rightarrow> json list" where
  "choices x = (case field ''choices'' x of Some (JArr cs) \<Rightarrow> cs | _ \<Rightarrow> [])"

text \<open>The content deltas of a chunk: the \<^verbatim>\<open>content\<close> of the \<^verbatim>\<open>delta\<close> of each choice that has one.\<close>

definition content_deltas :: "json \<Rightarrow> json list" where
  "content_deltas x =
     concat (map (\<lambda>c. case field ''delta'' c of
                          None \<Rightarrow> []
                        | Some d \<Rightarrow> (case field ''content'' d of None \<Rightarrow> [] | Some v \<Rightarrow> [v]))
                 (choices x))"


definition is_hex :: "char \<Rightarrow> bool" where
  "is_hex c = (c \<in> set ''0123456789abcdef'')"

subsection \<open>An environment and a state to run the code in\<close>

text \<open>A \<^verbatim>\<open>json.loads\<close> that knows the texts of a table and rejects every other text.\<close>

definition loads_table :: "(string \<times> json) list \<Rightarrow> string \<Rightarrow> string + json" where
  "loads_table table s = (case map_of table s of None \<Rightarrow> Inl ''Expecting value'' | Some x \<Rightarrow> Inr x)"

text \<open>
  The configuration defaults of lines 19-21, UUIDs and clock readings that count up, a
  \<^verbatim>\<open>json.loads\<close> given by a table, and a backend that always gives the same result.
  \<^verbatim>\<open>str.upper\<close> is the ASCII case map. No property below looks into what
  \<^verbatim>\<open>json.dumps\<close> and the server's encoder write, so here they write \<^verbatim>\<open>{}\<close> for every
  value.
\<close>

definition default_env :: "(string \<times> json) list \<Rightarrow> post_result \<Rightarrow> env" where
  "default_env table result =
     \<lparr>POSTECH_BASE_URL = ''https://genai.postech.ac.kr/agent/api'',
      POSTECH_API_KEY = [],
      PROXY_HOST = ''http://localhost:8080'',
      json_loads = loads_table table,
      json_dumps = (\<lambda>x. ''{}''),
      str_upper = ascii_upper,
      uuid4 = (\<lambda>n. of_nat n),
      unix_time = (\<lambda>n. 1700000000 + int n),
      requests_post = (\<lambda>c. result),
      encode_utf8 = (\<lambda>x. Some ''{}'')\<rparr>"

definition quoted :: "string \<Rightarrow> string" where
  "quoted s = [CHR 0x22] @ s @ [CHR 0x22]"

definition empty_world :: world where
  "empty_world = \<lparr>stored_files = Map.empty, disk = Map.empty, posts = [],
                   uuid_count = 0, time_count = 0\<rparr>"

text \<open>
  Sample texts with their values: the messages \<^verbatim>\<open>[{"role": "user", "content": "hi"}]\<close>,
  the messages \<^verbatim>\<open>[{"role": "user"}]\<close> that lack the content, the bodies
  \<^verbatim>\<open>{"messages": [{"role": "user", "content": "hi"}]}\<close>, \<^verbatim>\<open>{}\<close> and
  \<^verbatim>\<open>{"model": "gpt-4"}\<close> of a request, and the bodies \<^verbatim>\<open>{"replies": "hello"}\<close> and
  \<^verbatim>\<open>{"replies": 1e999}\<close> of a backend response; \<^verbatim>\<open>1e999\<close> is read as the float
  \<^verbatim>\<open>inf\<close>, with the bits \<open>0x7FF0000000000000\<close>.
\<close>

definition messages_text :: string where
  "messages_text =
     ''[{'' @ quoted ''role'' @ '': '' @ quoted ''user'' @ '', ''
       @ quoted ''content'' @ '': '' @ quoted ''hi'' @ ''}]''"

definition no_content_text :: string where
  "no_content_text = ''[{'' @ quoted ''role'' @ '': '' @ quoted ''user'' @ ''}]''"

definition body_text :: string where
  "body_text = ''{'' @ quoted ''messages'' @ '': '' @ messages_text @ ''}''"

definition gpt4_text :: string where
  "gpt4_text = ''{'' @ quoted ''model'' @ '': '' @ quoted ''gpt-4'' @ ''}''"

definition replies_text :: string where
  "replies_text = ''{'' @ quoted ''replies'' @ '': '' @ quoted ''hello'' @ ''}''"

definition inf_text :: string where
  "inf_text = ''{'' @ quoted ''replies'' @ '': 1e999}''"

definition sample_table :: "(string \<times> json) list" where
  "sample_table =
     [(messages_text, JArr [JObj [(''role'', JStr ''user''), (''content'', JStr ''hi'')]]),
      (no_content_text, JArr [JObj [(''role'', JStr ''user'')]]),
      (body_text,
         JObj [(''messages'',
                JArr [JObj [(''role'', JStr ''user''), (''content'', JStr ''hi'')]])]),
      (''{}'', JObj []),
      (gpt4_text, JObj [(''model'', JStr ''gpt-4'')]),
      (replies_text, JObj [(''replies'', JStr ''hello'')]),
      (inf_text, JObj [(''replies'', JFloat 0x7FF0000000000000)])]"

text \<open>An environment whose backend answers every call with status 200 and \<open>replies_text\<close>.\<close>

definition sample_env :: env where
  "sample_env = default_env sample_table (Response 200 replies_text)"

text \<open>An environment whose backend answers every call with status 200 and \<open>inf_text\<close>.\<close>

definition inf_env :: env where
  "inf_env = default_env sample_table (Response 200 inf_text)"

text \<open>
  An environment whose backend answers every call with status 200 and the body
  \<^verbatim>\<open>{"reply": "hello"}\<close>.
\<close>

definition reply_text :: string where
  "reply_text = ''{'' @ quoted ''reply'' @ '': '' @ quoted ''hello'' @ ''}''"

definition reply_env :: env where
  "reply_env =
     default_env [(reply_text, JObj [(''reply'', JStr ''hello'')])] (Response 200 reply_text)"

definition json_request :: "string \<Rightarrow> chat_request" where
  "json_request body =
     \<lparr>content_type_header = Some ''application/json'', request_body = body,
      form_model = None, form_messages = None, form_stream = None, form_file = None\<rparr>"

definition form_request :: "string option \<Rightarrow> string option \<Rightarrow> chat_request" where
  "form_request messages stream =
     \<lparr>content_type_header = Some ''multipart/form-data; boundary=x'', request_body = [],
      form_model = None, form_messages = messages, form_stream = stream, form_file = None\<rparr>"

section \<open>Properties\<close>

subsection \<open>Message transcoding\<close>

lemma prompt_lines_acc:
  "prompt_lines up lines msgs = lines @ map (\<lambda>m. up (role m) @ '': '' @ content m) msgs"
  by (induction msgs arbitrary: lines) simp_all

lemma join_map_toPrompt:
  "join [CHR 0x0A] (map (\<lambda>m. up (role m) @ '': '' @ content m) msgs) = toPrompt up msgs"
  by (induction up msgs rule: toPrompt.induct) simp_all

lemma ascii_upper_examples:
  "ascii_upper ''user'' = ''USER''" "ascii_upper ''assistant'' = ''ASSISTANT''"
  by (simp_all add: ascii_upper_def upper_char_def ascii_lowercase_def ascii_uppercase_def)

text \<open>
  C4: \<open>convert_messages_to_prompt\<close> is a function of the message list (and of
  \<^verbatim>\<open>str.upper\<close>, here \<open>up\<close>) alone; it emits for each message, in input order, the
  uppercased role, a colon and a space, and the content, and joins these lines with a
  single newline. The empty list gives the empty string. Where \<^verbatim>\<open>str.upper\<close> maps
  \<^verbatim>\<open>user\<close> to \<^verbatim>\<open>USER\<close> and \<^verbatim>\<open>assistant\<close> to \<^verbatim>\<open>ASSISTANT\<close>, the two examples of the
  specification come out as written.
\<close>

theorem convert_messages_to_prompt_spec:
  "convert_messages_to_prompt up msgs = toPrompt up msgs
   \<and> convert_messages_to_prompt up msgs
       = join [CHR 0x0A] (map (\<lambda>m. up (role m) @ '': '' @ content m) msgs)
   \<and> convert_messages_to_prompt up [] = []
   \<and> (up ''user'' = ''USER'' \<longrightarrow>
        convert_messages_to_prompt up [\<lparr>role = ''user'', content = ''hi''\<rparr>] = ''USER: hi'')
   \<and> (up ''user'' = ''USER'' \<and> up ''assistant'' = ''ASSISTANT'' \<longrightarrow>
        convert_messages_to_prompt up
          [\<lparr>role = ''user'', content = ''a''\<rparr>, \<lparr>role = ''assistant'', content = ''b''\<rparr>]
        = ''USER: a'' @ [CHR 0x0A] @ ''ASSISTANT: b'')"
proof -
  have general: "convert_messages_to_prompt up ms
      = join [CHR 0x0A] (map (\<lambda>m. up (role m) @ '': '' @ content m) ms)" for ms
    by (simp add: convert_messages_to_prompt_def prompt_lines_acc)
  have p1: "convert_messages_to_prompt up msgs = toPrompt up msgs"
    by (simp only: general join_map_toPrompt)
  have p3: "convert_messages_to_prompt up [] = []"
    by (simp add: general)
  have p4: "convert_messages_to_prompt up [\<lparr>role = ''user'', content = ''hi''\<rparr>] = ''USER: hi''"
    if "up ''user'' = ''USER''"
    using that by (simp add: general)
  have p5: "convert_messages_to_prompt up
        [\<lparr>role = ''user'', content = ''a''\<rparr>, \<lparr>role = ''assistant'', content = ''b''\<rparr>]
       = ''USER: a'' @ [CHR 0x0A] @ ''ASSISTANT: b''"
    if "up ''user'' = ''USER'' \<and> up ''assistant'' = ''ASSISTANT''"
    using that by (simp add: general)
  from p1 general [of msgs] p3 p4 p5 show ?thesis
    by blast
qed

theorem convert_messages_to_prompt_spec_witness:
  "ascii_upper ''user'' = ''USER'' \<and> ascii_upper ''assistant'' = ''ASSISTANT''
   \<and> convert_messages_to_prompt ascii_upper [\<lparr>role = ''user'', content = ''hi''\<rparr>] = ''USER: hi''
   \<and> convert_messages_to_prompt ascii_upper
        [\<lparr>role = ''user'', content = ''a''\<rparr>, \<lparr>role = ''assistant'', content = ''b''\<rparr>]
      = ''USER: a'' @ [CHR 0x0A] @ ''ASSISTANT: b''
   \<and> convert_messages_to_prompt ascii_upper [] = []"
  using convert_messages_to_prompt_spec
    [of ascii_upper
        "[\<lparr>role = ''user'', content = ''a''\<rparr>, \<lparr>role = ''assistant'', content = ''b''\<rparr>]"]
    ascii_upper_examples
  by simp

subsection \<open>The file registry\<close>

lemma uuid_str_0: "uuid_str 0 = ''00000000-0000-0000-0000-000000000000''"
  by (simp add: uuid_str_def uuid_hex_def hex_digit_def upt_rec)

text \<open>
  C8: what \<^verbatim>\<open>POST /v1/files\<close> stores, \<^verbatim>\<open>GET /files/{id}\<close> with the returned id gives
  back: a \<open>FileResponse\<close> that sends the uploaded bytes under the uploaded file name,
  whatever the state before. For an id that the registry does not have,
  \<^verbatim>\<open>GET /files/{id}\<close> fails with status 404 and leaves the state as it was.
\<close>

theorem file_round_trip:
  "(\<exists>file_id r. returned_id (fst (upload_file e w file)) = Some file_id
       \<and> get_file (snd (upload_file e w file)) file_id = (Inr r, snd (upload_file e w file))
       \<and> sent_file (snd (upload_file e w file)) r = Some (filename file, file_bytes file))
   \<and> (stored_files w other_id = None \<longrightarrow>
        get_file w other_id = (Inl (HTTPException 404 (Text ''File not found'')), w)
        \<and> status_code e (get_file w other_id) = 404)"
proof -
  define file_id where "file_id = uuid_str (uuid4 e (uuid_count w))"
  define path where "path = TMP_DIR @ ''/'' @ file_id"
  define w1 where "w1 = snd (upload_file e w file)"
  have returned: "returned_id (fst (upload_file e w file)) = Some file_id"
    by (simp add: upload_file_def new_uuid_def file_id_def Let_def)
  have registered: "stored_files w1 file_id
      = Some \<lparr>stored_id = file_id, stored_name = filename file, stored_path = path\<rparr>"
    by (simp add: w1_def upload_file_def new_uuid_def file_id_def path_def Let_def)
  have written: "disk w1 path = Some (file_bytes file)"
    by (simp add: w1_def upload_file_def new_uuid_def file_id_def path_def Let_def)
  have served: "get_file w1 file_id = (Inr (FileResponse path (filename file)), w1)"
    by (simp add: get_file_def registered)
  have sent: "sent_file w1 (FileResponse path (filename file))
                = Some (filename file, file_bytes file)"
    by (simp add: written)
  have missing: "get_file w other_id = (Inl (HTTPException 404 (Text ''File not found'')), w)"
    if "stored_files w other_id = None"
    using that by (simp add: get_file_def)
  from returned served sent missing show ?thesis
    unfolding w1_def by auto
qed

theorem file_round_trip_witness:
  "stored_files empty_world ''nope'' = None
   \<and> get_file empty_world ''nope''
       = (Inl (HTTPException 404 (Text ''File not found'')), empty_world)
   \<and> returned_id (fst (upload_file (default_env [] (Raises [])) empty_world
          \<lparr>filename = Some ''a.txt'', file_bytes = [1, 2, 3]\<rparr>))
       = Some ''00000000-0000-0000-0000-000000000000''
   \<and> fst (get_file (snd (upload_file (default_env [] (Raises [])) empty_world
          \<lparr>filename = Some ''a.txt'', file_bytes = [1, 2, 3]\<rparr>))
          ''00000000-0000-0000-0000-000000000000'')
       = Inr (FileResponse ''tmp/00000000-0000-0000-0000-000000000000'' (Some ''a.txt''))
   \<and> sent_file (snd (upload_file (default_env [] (Raises [])) empty_world
          \<lparr>filename = Some ''a.txt'', file_bytes = [1, 2, 3]\<rparr>))
          (FileResponse ''tmp/00000000-0000-0000-0000-000000000000'' (Some ''a.txt''))
       = Some (Some ''a.txt'', [1, 2, 3])"
  using file_round_trip [of "default_env [] (Raises [])" empty_world
      "\<lparr>filename = Some ''a.txt'', file_bytes = [1, 2, 3]\<rparr>" "''nope''"]
  by (simp add: empty_world_def default_env_def upload_file_def get_file_def new_uuid_def
      TMP_DIR_def Let_def uuid_str_0)

subsection \<open>The backend client\<close>

text \<open>
  C1 as stated fails: the code reads the field \<^verbatim>\<open>replies\<close>, not \<^verbatim>\<open>reply\<close>. For a
  body \<^verbatim>\<open>{"reply": "hello"}\<close> with status 200 the client returns the empty string,
  though the field \<^verbatim>\<open>reply\<close> is there and holds \<^verbatim>\<open>"hello"\<close>.
\<close>

theorem call_postech_api_reply_counterexample:
  "requests_post reply_env (post_of reply_env ''a1/gpt'' ''USER: hi'' []) = Response 200 reply_text
   \<and> json_loads reply_env reply_text = Inr (JObj [(''reply'', JStr ''hello'')])
   \<and> field ''reply'' (JObj [(''reply'', JStr ''hello'')]) = Some (JStr ''hello'')
   \<and> fst (call_postech_api reply_env empty_world ''a1/gpt'' ''USER: hi'' []) = Inr (JStr [])
   \<and> fst (call_postech_api reply_env empty_world ''a1/gpt'' ''USER: hi'' [])
       \<noteq> Inr (JStr ''hello'')"
  by (simp add: call_postech_api_def reply_env_def default_env_def loads_table_def
      dict_get_def Let_def)

text \<open>
  C1, amended: after a 2xx response whose body parses to a JSON object,
  \<open>call_postech_api\<close> returns the value of the field \<^verbatim>\<open>replies\<close> of that object, and
  the empty string when the object has no such field; it does not raise.
\<close>

theorem call_postech_api_replies:
  assumes "requests_post e (post_of e endpoint prompt files) = Response status body"
    and "200 \<le> status" and "status < 300"
    and "json_loads e body = Inr (JObj data)"
  shows "fst (call_postech_api e w endpoint prompt files)
           = Inr (case map_of data ''replies'' of None \<Rightarrow> JStr [] | Some v \<Rightarrow> v)"
  using assms by (simp add: call_postech_api_def dict_get_def Let_def)

theorem call_postech_api_replies_witness:
  "requests_post sample_env (post_of sample_env ''a1/gpt'' ''USER: hi'' [])
     = Response 200 replies_text
   \<and> json_loads sample_env replies_text = Inr (JObj [(''replies'', JStr ''hello'')])
   \<and> fst (call_postech_api sample_env empty_world ''a1/gpt'' ''USER: hi'' [])
       = Inr (JStr ''hello'')
   \<and> fst (call_postech_api reply_env empty_world ''a1/gpt'' ''USER: hi'' []) = Inr (JStr [])"
proof -
  have post: "requests_post sample_env (post_of sample_env ''a1/gpt'' ''USER: hi'' [])
                = Response 200 replies_text"
    by (simp add: sample_env_def default_env_def)
  have loads: "json_loads sample_env replies_text = Inr (JObj [(''replies'', JStr ''hello'')])"
    by (simp add: sample_env_def default_env_def loads_table_def sample_table_def
        messages_text_def no_content_text_def body_text_def gpt4_text_def replies_text_def
        quoted_def)
  have post': "requests_post reply_env (post_of reply_env ''a1/gpt'' ''USER: hi'' [])
                 = Response 200 reply_text"
    by (simp add: reply_env_def default_env_def)
  have loads': "json_loads reply_env reply_text = Inr (JObj [(''reply'', JStr ''hello'')])"
    by (simp add: reply_env_def default_env_def loads_table_def)
  from call_postech_api_replies [OF post _ _ loads, of empty_world]
    call_postech_api_replies [OF post' _ _ loads', of empty_world] post loads
  show ?thesis by simp
qed

subsection \<open>The synthetic stream\<close>

text \<open>
  C5: for every reply, model and completion id the generator yields exactly three
  frames. The first carries a chunk with one choice, whose delta has the role
  \<^verbatim>\<open>assistant\<close> and the whole reply as content, and whose \<^verbatim>\<open>finish_reason\<close> is
  \<^verbatim>\<open>None\<close>; the second a chunk with one choice, an empty delta and the
  \<^verbatim>\<open>finish_reason\<close> \<^verbatim>\<open>"stop"\<close>; the third is the literal \<^verbatim>\<open>data: [DONE]\<close> followed by two
  newlines. Both chunks have the given completion id and the one clock reading taken at
  the start, and the content deltas of all chunks together are the reply.
\<close>

theorem generate_stream_response_frames:
  "generate_stream_response e w reply model cid
     = ([''data: '' @ json_dumps e (chunk reply model cid (unix_time e (time_count w)))
           @ [CHR 0x0A, CHR 0x0A],
         ''data: '' @ json_dumps e (finish_chunk model cid (unix_time e (time_count w)))
           @ [CHR 0x0A, CHR 0x0A],
         ''data: [DONE]'' @ [CHR 0x0A, CHR 0x0A]],
        w\<lparr>time_count := Suc (time_count w)\<rparr>)
   \<and> length (fst (generate_stream_response e w reply model cid)) = 3
   \<and> last (fst (generate_stream_response e w reply model cid))
       = ''data: [DONE]'' @ [CHR 0x0A, CHR 0x0A]
   \<and> choices (chunk reply model cid t)
       = [JObj [(''index'', JNum 0),
                (''delta'', JObj [(''role'', JStr ''assistant''), (''content'', reply)]),
                (''finish_reason'', JNull)]]
   \<and> choices (finish_chunk model cid t)
       = [JObj [(''index'', JNum 0), (''delta'', JObj []), (''finish_reason'', JStr ''stop'')]]
   \<and> field ''id'' (chunk reply model cid t) = Some (JStr cid)
   \<and> field ''id'' (finish_chunk model cid t) = Some (JStr cid)
   \<and> field ''created'' (chunk reply model cid t) = Some (JNum t)
   \<and> field ''created'' (finish_chunk model cid t) = Some (JNum t)
   \<and> content_deltas (chunk reply model cid t) @ content_deltas (finish_chunk model cid t)
       = [reply]
   \<and> concat (map text_of (content_deltas (chunk reply model cid t)
                             @ content_deltas (finish_chunk model cid t)))
       = text_of reply"
proof -
  have frames: "generate_stream_response e w reply model cid
     = ([''data: '' @ json_dumps e (chunk reply model cid (unix_time e (time_count w)))
           @ [CHR 0x0A, CHR 0x0A],
         ''data: '' @ json_dumps e (finish_chunk model cid (unix_time e (time_count w)))
           @ [CHR 0x0A, CHR 0x0A],
         ''data: [DONE]'' @ [CHR 0x0A, CHR 0x0A]],
        w\<lparr>time_count := Suc (time_count w)\<rparr>)"
    by (simp add: generate_stream_response_def now_def)
  have c1: "choices (chunk reply model cid t)
       = [JObj [(''index'', JNum 0),
                (''delta'', JObj [(''role'', JStr ''assistant''), (''content'', reply)]),
                (''finish_reason'', JNull)]]"
    by (simp add: choices_def chunk_def)
  have c2: "choices (finish_chunk model cid t)
       = [JObj [(''index'', JNum 0), (''delta'', JObj []), (''finish_reason'', JStr ''stop'')]]"
    by (simp add: choices_def finish_chunk_def)
  have ids: "field ''id'' (chunk reply model cid t) = Some (JStr cid)"
    "field ''id'' (finish_chunk model cid t) = Some (JStr cid)"
    by (simp_all add: chunk_def finish_chunk_def)
  have created: "field ''created'' (chunk reply model cid t) = Some (JNum t)"
    "field ''created'' (finish_chunk model cid t) = Some (JNum t)"
    by (simp_all add: chunk_def finish_chunk_def)
  have d1: "content_deltas (chunk reply model cid t) = [reply]"
    by (simp add: content_deltas_def c1)
  have d2: "content_deltas (finish_chunk model cid t) = []"
    by (simp add: content_deltas_def c2)
  show ?thesis
    unfolding frames d1 d2 using c1 c2 ids created by simp
qed

subsection \<open>The payload sent to the backend\<close>

lemma call_postech_api_posts:
  "posts (snd (call_postech_api e w endpoint prompt files))
     = posts w @ [post_of e endpoint prompt files]"
  by (simp add: call_postech_api_def Let_def split: post_result.splits sum.splits json.splits)

lemma attach_file_posts: "posts (snd (attach_file e w file)) = posts w"
  by (simp add: attach_file_def save_uploaded_file_def new_uuid_def Let_def
      split: option.splits)

lemma respond_posts: "posts (snd (respond e w reply model is_stream)) = posts w"
  by (simp add: respond_def generate_stream_response_def new_uuid_def now_def Let_def)

lemma payload_stream: "field ''stream'' (post_json (post_of e endpoint prompt files)) = Some (JBool False)"
  by (simp add: post_of_def payload_of_def)

lemma chat_completions_posts:
  "posts (snd (chat_completions e w rq)) = posts w
   \<or> (\<exists>endpoint prompt files.
         posts (snd (chat_completions e w rq)) = posts w @ [post_of e endpoint prompt files])"
proof (cases "parse_request e rq")
  case (Inl f)
  then show ?thesis by (simp add: chat_completions_def)
next
  case (Inr parsed)
  obtain model_value msgs strm where parsed: "parsed = (model_value, msgs, strm)"
    by (cases parsed) auto
  show ?thesis
  proof (cases "validate_model model_value")
    case (Inl f)
    with Inr parsed show ?thesis by (simp add: chat_completions_def)
  next
    case valid: (Inr model)
    obtain files w1 where att: "attach_file e w (form_file rq) = (files, w1)"
      by (cases "attach_file e w (form_file rq)") auto
    have w1: "posts w1 = posts w"
      using attach_file_posts [of e w "form_file rq"] att by simp
    show ?thesis
    proof (cases "map_of MODEL_ENDPOINTS model")
      case None
      with Inr parsed valid att w1 show ?thesis by (simp add: chat_completions_def)
    next
      case (Some endpoint)
      obtain result w2 where
        call: "call_postech_api e w1 endpoint (convert_messages_to_prompt (str_upper e) msgs) files = (result, w2)"
        by (cases "call_postech_api e w1 endpoint (convert_messages_to_prompt (str_upper e) msgs) files") auto
      have w2: "posts w2 = posts w @ [post_of e endpoint (convert_messages_to_prompt (str_upper e) msgs) files]"
        using call_postech_api_posts [of e w1 endpoint "convert_messages_to_prompt (str_upper e) msgs" files]
          call w1 by simp
      have "posts (snd (chat_completions e w rq)) = posts w2"
      proof (cases result)
        case (Inl ex)
        with Inr parsed valid att Some call show ?thesis
          by (simp add: chat_completions_def)
      next
        case reply: (Inr reply)
        obtain resp w3 where resp: "respond e w2 reply model strm = (resp, w3)"
          by (cases "respond e w2 reply model strm") auto
        have "posts w3 = posts w2"
          using respond_posts [of e w2 reply model strm] resp by simp
        with Inr parsed valid att Some call reply resp show ?thesis
          by (simp add: chat_completions_def)
      qed
      with w2 show ?thesis by auto
    qed
  qed
qed

text \<open>
  C6: the payload that \<open>call_postech_api\<close> posts always has \<^verbatim>\<open>stream\<close> equal to
  \<^verbatim>\<open>False\<close>. A chat-completions request, whatever its stream flag, makes no call of the
  backend or exactly one, and that one carries such a payload.
\<close>

theorem backend_payload_never_streams:
  "field ''stream'' (payload_of prompt files) = Some (JBool False)
   \<and> posts (snd (call_postech_api e w endpoint prompt files))
       = posts w @ [post_of e endpoint prompt files]
   \<and> field ''stream'' (post_json (post_of e endpoint prompt files)) = Some (JBool False)
   \<and> (posts (snd (chat_completions e w rq)) = posts w
       \<or> (\<exists>c. posts (snd (chat_completions e w rq)) = posts w @ [c]
              \<and> field ''stream'' (post_json c) = Some (JBool False)))"
proof -
  have "field ''stream'' (payload_of prompt files) = Some (JBool False)"
    by (simp add: payload_of_def)
  moreover have "posts (snd (chat_completions e w rq)) = posts w
       \<or> (\<exists>c. posts (snd (chat_completions e w rq)) = posts w @ [c]
              \<and> field ''stream'' (post_json c) = Some (JBool False))"
    using chat_completions_posts [of e w rq] payload_stream by blast
  ultimately show ?thesis
    using call_postech_api_posts payload_stream by simp
qed

subsection \<open>Chat completions\<close>

lemma uuid_hex_0: "uuid_hex 0 = ''00000000000000000000000000000000''"
  by (simp add: uuid_hex_def hex_digit_def upt_rec)


lemma loads_sample:
  "json_loads sample_env messages_text
     = Inr (JArr [JObj [(''role'', JStr ''user''), (''content'', JStr ''hi'')]])"
  "json_loads sample_env no_content_text = Inr (JArr [JObj [(''role'', JStr ''user'')]])"
  "json_loads sample_env body_text
     = Inr (JObj [(''messages'',
                   JArr [JObj [(''role'', JStr ''user''), (''content'', JStr ''hi'')]])])"
  "json_loads sample_env ''{}'' = Inr (JObj [])"
  "json_loads sample_env gpt4_text = Inr (JObj [(''model'', JStr ''gpt-4'')])"
  "json_loads sample_env replies_text = Inr (JObj [(''replies'', JStr ''hello'')])"
  "json_loads sample_env inf_text = Inr (JObj [(''replies'', JFloat 0x7FF0000000000000)])"
  by (simp_all add: sample_env_def default_env_def loads_table_def sample_table_def
      messages_text_def no_content_text_def body_text_def gpt4_text_def replies_text_def
      inf_text_def quoted_def)

lemma sample_env_simps:
  "requests_post sample_env c = Response 200 replies_text"
  "uuid4 sample_env n = of_nat n"
  "unix_time sample_env n = 1700000000 + int n"
  "json_dumps sample_env x = ''{}''"
  "str_upper sample_env = ascii_upper"
  "encode_utf8 sample_env x = Some ''{}''"
  by (simp_all add: sample_env_def default_env_def)

lemma inf_env_simps:
  "requests_post inf_env c = Response 200 inf_text"
  "uuid4 inf_env n = of_nat n"
  "unix_time inf_env n = 1700000000 + int n"
  "str_upper inf_env = ascii_upper"
  "json_loads inf_env = json_loads sample_env"
  by (simp_all add: inf_env_def sample_env_def default_env_def)

lemma no_content_text_nonempty: "no_content_text \<noteq> []" "messages_text \<noteq> []"
  by (simp_all add: no_content_text_def messages_text_def)

lemmas handler_defs =
  chat_completions_def parse_request_def parse_form_def parse_body_def parse_messages_def
  validate_model_def attach_file_def call_postech_api_def
  respond_def new_uuid_def now_def generate_stream_response_def
  empty_world_def dict_get_def DEFAULT_MODEL_def MODEL_ENDPOINTS_def
  convert_messages_to_prompt_def stream_flag_def json_request_def form_request_def Let_def

text \<open>
  What the form branch does reject with status 400: a missing or empty \<^verbatim>\<open>messages\<close>
  field, a text that \<^verbatim>\<open>json.loads\<close> rejects, and a value whose parse raises a
  \<open>TypeError\<close>. A request that does not parse leaves the state as it was.
\<close>

lemma parse_form_rejects:
  "form_messages rq = None \<or> form_messages rq = Some [] \<Longrightarrow>
     parse_form e rq = Inl (HTTPException 400 (Text ''messages field is required''))"
  "form_messages rq = Some m \<Longrightarrow> m \<noteq> [] \<Longrightarrow> json_loads e m = Inl msg \<Longrightarrow>
     parse_form e rq = Inl (HTTPException 400 (InvalidMessagesFormat (JSONDecodeError msg)))"
  "form_messages rq = Some m \<Longrightarrow> m \<noteq> [] \<Longrightarrow> json_loads e m = Inr x \<Longrightarrow>
     parse_messages x = Inl (TypeError t) \<Longrightarrow>
     parse_form e rq = Inl (HTTPException 400 (InvalidMessagesFormat (TypeError t)))"
  by (auto simp: parse_form_def)

lemma chat_completions_not_parsed:
  "parse_request e rq = Inl f \<Longrightarrow> chat_completions e w rq = (Inl f, w)"
  by (simp add: chat_completions_def)

text \<open>
  C2, at a failing input: a multipart request whose \<^verbatim>\<open>messages\<close> field is
  \<^verbatim>\<open>[{"role": "user"}]\<close>, a JSON list whose only element lacks the content. The
  \<open>ValidationError\<close> of \<^verbatim>\<open>Message(**m)\<close> is not among the exceptions that line 211
  catches, so the handler ends with an exception that nothing handles (status 500) where
  the claim says 400. The backend is not called.
\<close>

theorem chat_completions_validation_error_unhandled:
  "chat_completions sample_env empty_world (form_request (Some no_content_text) None)
     = (Inl (Unhandled ValidationError), empty_world)
   \<and> status_code sample_env
         (chat_completions sample_env empty_world (form_request (Some no_content_text) None))
       = 500"
  by (simp add: handler_defs loads_sample no_content_text_nonempty)

lemma map_of_MODEL_ENDPOINTS:
  "map_of MODEL_ENDPOINTS model = Some endpoint \<Longrightarrow> model \<in> set (map fst MODEL_ENDPOINTS)"
  by (metis map_of_eq_None_iff option.distinct(1) set_map)




lemma hex_digit_is_hex: "n < 16 \<Longrightarrow> is_hex (hex_digit n)"
  unfolding is_hex_def hex_digit_def by (rule nth_mem) simp

lemma uuid_hex_is_hex: "list_all is_hex (uuid_hex u)"
proof -
  have "nat (uint u div 16 ^ k mod 16) < 16" for k
    by (simp add: nat_less_iff)
  then show ?thesis
    by (simp add: uuid_hex_def list_all_iff hex_digit_is_hex)
qed

lemma suffix_is_hex: "length (take 12 (uuid_hex u)) = 12 \<and> list_all is_hex (take 12 (uuid_hex u))"
proof
  show "length (take 12 (uuid_hex u)) = 12"
    by (simp add: uuid_hex_def)
  have "set (take 12 (uuid_hex u)) \<subseteq> set (uuid_hex u)"
    by (rule set_take_subset)
  with uuid_hex_is_hex [of u] show "list_all is_hex (take 12 (uuid_hex u))"
    by (auto simp: list_all_iff)
qed

lemma respond_plain:
  "\<not> truthy strm \<Longrightarrow>
   respond e w reply model strm
     = (JSONResponse (completion reply model
                        (''chatcmpl-'' @ take 12 (uuid_hex (uuid4 e (uuid_count w))))
                        (unix_time e (time_count w))),
        w\<lparr>uuid_count := Suc (uuid_count w), time_count := Suc (time_count w)\<rparr>)"
  by (simp add: respond_def new_uuid_def now_def)


lemma chat_completions_reply:
  assumes "parse_request e rq = Inr (model_value, msgs, strm)"
    and "validate_model model_value = Inr model"
    and "map_of MODEL_ENDPOINTS model = Some endpoint"
    and "attach_file e w (form_file rq) = (files, w1)"
    and "call_postech_api e w1 endpoint (convert_messages_to_prompt (str_upper e) msgs) files = (Inr r, w2)"
  shows "chat_completions e w rq
           = (Inr (fst (respond e w2 r model strm)), snd (respond e w2 r model strm))"
  using assms by (simp add: chat_completions_def split_beta)

lemma validate_model_key:
  "map_of MODEL_ENDPOINTS model = Some endpoint \<Longrightarrow> validate_model (JStr model) = Inr model"
  using map_of_MODEL_ENDPOINTS [of model endpoint] by (simp add: validate_model_def)

lemma sample_prompt:
  "convert_messages_to_prompt ascii_upper [\<lparr>role = ''user'', content = ''hi''\<rparr>] = ''USER: hi''"
  by (simp add: convert_messages_to_prompt_def ascii_upper_examples)

lemma sample_parse:
  "parse_request sample_env (json_request body_text)
     = Inr (JStr ''postech-gpt'', [\<lparr>role = ''user'', content = ''hi''\<rparr>], JBool False)"
  "parse_request inf_env (json_request body_text)
     = Inr (JStr ''postech-gpt'', [\<lparr>role = ''user'', content = ''hi''\<rparr>], JBool False)"
  by (simp_all add: parse_request_def parse_body_def parse_messages_def json_request_def
      inf_env_simps loads_sample dict_get_def DEFAULT_MODEL_def)

text \<open>
  C7 as stated fails: the reply is whatever value the backend sent under \<^verbatim>\<open>replies\<close>, and
  not every value can be sent on. For the backend body \<^verbatim>\<open>{"replies": 1e999}\<close> the reply
  is the float \<^verbatim>\<open>inf\<close>; the handler returns the completion object with that content, the
  server cannot write it as JSON, and the client gets status 500.
\<close>

theorem non_streaming_completion_inf_counterexample:
  "parse_request inf_env (json_request body_text)
     = Inr (JStr ''postech-gpt'', [\<lparr>role = ''user'', content = ''hi''\<rparr>], JBool False)
   \<and> map_of MODEL_ENDPOINTS ''postech-gpt'' = Some ''a1/gpt''
   \<and> fst (call_postech_api inf_env empty_world ''a1/gpt'' ''USER: hi'' [])
       = Inr (JFloat 0x7FF0000000000000)
   \<and> fst (chat_completions inf_env empty_world (json_request body_text))
       = Inr (JSONResponse
                (completion (JFloat 0x7FF0000000000000) ''postech-gpt''
                   ''chatcmpl-000000000000'' 1700000000))
   \<and> status_code inf_env (chat_completions inf_env empty_world (json_request body_text)) = 500"
proof -
  have key: "map_of MODEL_ENDPOINTS ''postech-gpt'' = Some ''a1/gpt''"
    by (simp add: MODEL_ENDPOINTS_def)
  have att: "attach_file inf_env empty_world (form_file (json_request body_text))
               = ([], empty_world)"
    by (simp add: attach_file_def json_request_def)
  have call: "call_postech_api inf_env empty_world ''a1/gpt'' ''USER: hi'' []
              = (Inr (JFloat 0x7FF0000000000000),
                 empty_world\<lparr>posts := [post_of inf_env ''a1/gpt'' ''USER: hi'' []]\<rparr>)"
    by (simp add: call_postech_api_def inf_env_simps loads_sample dict_get_def empty_world_def)
  have call': "call_postech_api inf_env empty_world ''a1/gpt''
                 (convert_messages_to_prompt (str_upper inf_env)
                    [\<lparr>role = ''user'', content = ''hi''\<rparr>]) []
              = (Inr (JFloat 0x7FF0000000000000),
                 empty_world\<lparr>posts := [post_of inf_env ''a1/gpt'' ''USER: hi'' []]\<rparr>)"
    using call by (simp add: inf_env_simps sample_prompt)
  have valid: "validate_model (JStr ''postech-gpt'') = Inr ''postech-gpt''"
    using key by (rule validate_model_key)
  have run: "chat_completions inf_env empty_world (json_request body_text)
       = (Inr (JSONResponse
                (completion (JFloat 0x7FF0000000000000) ''postech-gpt''
                   ''chatcmpl-000000000000'' 1700000000)),
          empty_world\<lparr>posts := [post_of inf_env ''a1/gpt'' ''USER: hi'' []],
                        uuid_count := 1, time_count := 1\<rparr>)"
    unfolding chat_completions_reply [OF sample_parse(2) valid key att call']
    by (simp add: respond_plain inf_env_simps uuid_hex_0 empty_world_def)
  have "\<not> json_compliant
            (completion (JFloat 0x7FF0000000000000) ''postech-gpt''
               ''chatcmpl-000000000000'' 1700000000)"
    by (simp add: completion_def)
  then have "status_code inf_env (chat_completions inf_env empty_world (json_request body_text))
               = 500"
    by (simp add: run render_def)
  with sample_parse(2) key call run show ?thesis by simp
qed

text \<open>
  C7, amended: a request that parses, whose model is a key of \<open>MODEL_ENDPOINTS\<close>, whose
  stream flag is not true and whose backend call returns the reply \<open>r\<close>, is answered with
  a completion object: \<^verbatim>\<open>object\<close> is \<^verbatim>\<open>chat.completion\<close>, the id is \<^verbatim>\<open>chatcmpl-\<close>
  followed by 12 hexadecimal digits, and there is one choice, with the role
  \<^verbatim>\<open>assistant\<close>, the content \<open>r\<close> as it is, and the \<^verbatim>\<open>finish_reason\<close> \<^verbatim>\<open>stop\<close>. The
  status is 200 when the server can render that object: it holds no NaN and no infinite
  float, and its text can be encoded.
\<close>

theorem non_streaming_completion:
  assumes "parse_request e rq = Inr (JStr model, msgs, strm)"
    and "\<not> truthy strm"
    and "map_of MODEL_ENDPOINTS model = Some endpoint"
    and "attach_file e w (form_file rq) = (files, w1)"
    and "call_postech_api e w1 endpoint (convert_messages_to_prompt (str_upper e) msgs) files = (Inr r, w2)"
    and "suffix = take 12 (uuid_hex (uuid4 e (uuid_count w2)))"
    and "resp = completion r model (''chatcmpl-'' @ suffix) (unix_time e (time_count w2))"
    and "render e resp = Some body"
  shows "fst (chat_completions e w rq) = Inr (JSONResponse resp)
         \<and> status_code e (chat_completions e w rq) = 200
         \<and> field ''object'' resp = Some (JStr ''chat.completion'')
         \<and> field ''id'' resp = Some (JStr (''chatcmpl-'' @ suffix))
         \<and> length suffix = 12 \<and> list_all is_hex suffix
         \<and> choices resp
             = [JObj [(''index'', JNum 0),
                      (''message'', JObj [(''role'', JStr ''assistant''), (''content'', r)]),
                      (''finish_reason'', JStr ''stop'')]]"
proof -
  have valid: "validate_model (JStr model) = Inr model"
    using assms(3) by (rule validate_model_key)
  have run: "chat_completions e w rq
          = (Inr (fst (respond e w2 r model strm)), snd (respond e w2 r model strm))"
    using assms(1) valid assms(3,4,5) by (rule chat_completions_reply)
  then have result: "fst (chat_completions e w rq) = Inr (JSONResponse resp)"
    using assms(2,6,7) by (simp add: respond_plain)
  have status: "status_code e (chat_completions e w rq) = 200"
    using run assms(2,6,7,8) by (simp add: respond_plain)
  have shape: "field ''object'' resp = Some (JStr ''chat.completion'')"
    "field ''id'' resp = Some (JStr (''chatcmpl-'' @ suffix))"
    "choices resp
       = [JObj [(''index'', JNum 0),
                (''message'', JObj [(''role'', JStr ''assistant''), (''content'', r)]),
                (''finish_reason'', JStr ''stop'')]]"
    using assms(7) by (simp_all add: completion_def choices_def)
  have "length suffix = 12 \<and> list_all is_hex suffix"
    using assms(6) suffix_is_hex by simp
  with result status shape show ?thesis by simp
qed

theorem non_streaming_completion_witness:
  "parse_request sample_env (json_request body_text)
     = Inr (JStr ''postech-gpt'', [\<lparr>role = ''user'', content = ''hi''\<rparr>], JBool False)
   \<and> \<not> truthy (JBool False)
   \<and> map_of MODEL_ENDPOINTS ''postech-gpt'' = Some ''a1/gpt''
   \<and> attach_file sample_env empty_world None = ([], empty_world)
   \<and> fst (call_postech_api sample_env empty_world ''a1/gpt'' ''USER: hi'' [])
       = Inr (JStr ''hello'')
   \<and> render sample_env
        (completion (JStr ''hello'') ''postech-gpt'' ''chatcmpl-000000000000'' 1700000000)
       = Some ''{}''
   \<and> fst (chat_completions sample_env empty_world (json_request body_text))
       = Inr (JSONResponse
                (completion (JStr ''hello'') ''postech-gpt'' ''chatcmpl-000000000000'' 1700000000))
   \<and> status_code sample_env (chat_completions sample_env empty_world (json_request body_text))
       = 200"
proof -
  have key: "map_of MODEL_ENDPOINTS ''postech-gpt'' = Some ''a1/gpt''"
    by (simp add: MODEL_ENDPOINTS_def)
  have att: "attach_file sample_env empty_world (form_file (json_request body_text))
               = ([], empty_world)"
    by (simp add: attach_file_def json_request_def)
  have call: "call_postech_api sample_env empty_world ''a1/gpt''
                (convert_messages_to_prompt (str_upper sample_env)
                   [\<lparr>role = ''user'', content = ''hi''\<rparr>]) []
              = (Inr (JStr ''hello''),
                 empty_world\<lparr>posts := [post_of sample_env ''a1/gpt'' ''USER: hi'' []]\<rparr>)"
    by (simp add: sample_prompt call_postech_api_def sample_env_simps loads_sample dict_get_def
        empty_world_def)
  have suffix: "''000000000000''
      = take 12 (uuid_hex (uuid4 sample_env
          (uuid_count (empty_world\<lparr>posts := [post_of sample_env ''a1/gpt'' ''USER: hi'' []]\<rparr>))))"
    by (simp add: sample_env_simps empty_world_def uuid_hex_0)
  have resp: "completion (JStr ''hello'') ''postech-gpt'' ''chatcmpl-000000000000'' 1700000000
      = completion (JStr ''hello'') ''postech-gpt'' (''chatcmpl-'' @ ''000000000000'')
          (unix_time sample_env
            (time_count (empty_world\<lparr>posts := [post_of sample_env ''a1/gpt'' ''USER: hi'' []]\<rparr>)))"
    by (simp add: sample_env_simps empty_world_def)
  have rendered: "render sample_env
        (completion (JStr ''hello'') ''postech-gpt'' ''chatcmpl-000000000000'' 1700000000)
       = Some ''{}''"
    by (simp add: render_def completion_def sample_env_simps)
  from non_streaming_completion [OF sample_parse(1) _ key att call suffix resp rendered]
    sample_parse(1) key att call rendered
  show ?thesis
    by (simp add: json_request_def sample_env_simps sample_prompt)
qed












end
